theory Spec2Isabelle
  imports Main "HOL-Library.Sublist"
begin

section \<open>Python values, exceptions and text operations\<close>

text \<open>
  The development embeds \<^verbatim>\<open>remote_execute_sql\<close> of \<^verbatim>\<open>pycof/sql.py\<close>.
  A \<open>string\<close> is a list of byte-sized characters. \<open>upper\<close> and \<open>lower\<close> change
  the 26 letters and nothing else, which is what \<^verbatim>\<open>str.upper\<close> and \<^verbatim>\<open>str.lower\<close>
  do on ASCII text; on other text Python follows Unicode (\<^verbatim>\<open>'stra\<ss>e'.upper()\<close> is
  \<^verbatim>\<open>'STRASSE'\<close>), and the two functions here do not. A statement on what the call
  does with the upper-cased table name or query text is therefore made for ASCII text,
  under the hypothesis \<open>ascii\<close> below.

  A tabular dataset is an ordered sequence of rows, each row a list of column name and
  optional (nullable) cell value.
\<close>

type_synonym dataframe = "(string \<times> string option) list list"

text \<open>
  The values the arguments \<^verbatim>\<open>sql_query\<close>, \<^verbatim>\<open>data\<close> and \<^verbatim>\<open>credentials\<close> take:
  a \<^verbatim>\<open>str\<close>, a \<^verbatim>\<open>pandas.DataFrame\<close>, or a \<^verbatim>\<open>dict\<close> (the defaults of
  \<^verbatim>\<open>data\<close> and \<^verbatim>\<open>credentials\<close> are \<^verbatim>\<open>{}\<close>).
\<close>

datatype pyval = Str string | DataFrame dataframe | Dict "(string \<times> string) list"

text \<open>
  The exceptions the function raises itself, by name, and \<open>External\<close> for any exception
  that a collaborator raises (\<^verbatim>\<open>f_read\<close>, the credential resolver, the tunnel, the
  connector, pandas). The function has no \<^verbatim>\<open>except\<close> clause, so the origin is all
  that matters of a collaborator's exception.
\<close>

datatype exc =
    ValueError string
  | SyntaxError string
  | AssertionError string
  | AttributeError string
  | IndexError string
  | External string

text \<open>\<^verbatim>\<open>type(v) == pd.DataFrame\<close>\<close>

fun is_frame :: "pyval \<Rightarrow> bool" where
  "is_frame (DataFrame _) = True"
| "is_frame _ = False"

definition lower_letters :: string where
  "lower_letters = ''abcdefghijklmnopqrstuvwxyz''"

definition upper_letters :: string where
  "upper_letters = ''ABCDEFGHIJKLMNOPQRSTUVWXYZ''"

definition to_upper :: "char \<Rightarrow> char" where
  "to_upper c = (case map_of (zip lower_letters upper_letters) c of Some u \<Rightarrow> u | None \<Rightarrow> c)"

definition to_lower :: "char \<Rightarrow> char" where
  "to_lower c = (case map_of (zip upper_letters lower_letters) c of Some l \<Rightarrow> l | None \<Rightarrow> c)"

definition upper :: "string \<Rightarrow> string" where
  "upper s = map to_upper s"

definition lower :: "string \<Rightarrow> string" where
  "lower s = map to_lower s"

text \<open>
  \<^verbatim>\<open>v.upper()\<close> and \<^verbatim>\<open>v.lower()\<close> on an argument that need not be a string: a
  DataFrame or a dict has neither attribute.
\<close>

fun py_upper :: "pyval \<Rightarrow> exc + string" where
  "py_upper (Str s) = Inr (upper s)"
| "py_upper (DataFrame _) = Inl (AttributeError ''upper'')"
| "py_upper (Dict _) = Inl (AttributeError ''upper'')"

fun py_lower :: "pyval \<Rightarrow> exc + string" where
  "py_lower (Str s) = Inr (lower s)"
| "py_lower (DataFrame _) = Inl (AttributeError ''lower'')"
| "py_lower (Dict _) = Inl (AttributeError ''lower'')"

text \<open>\<^verbatim>\<open>sep.join(xs)\<close>\<close>

fun join :: "string \<Rightarrow> string list \<Rightarrow> string" where
  "join sep [] = []"
| "join sep [x] = x"
| "join sep (x # y # ys) = x @ sep @ join sep (y # ys)"

text \<open>
  \<^verbatim>\<open>a in b\<close> on two strings is \<^term>\<open>sublist a b\<close>: \<open>b\<close> is \<open>ps @ a @ ss\<close> for some
  \<open>ps\<close> and \<open>ss\<close>.
\<close>

section \<open>Classification (lines 97 to 123)\<close>

definition all_query_types :: "string list" where
  "all_query_types =
     [''SELECT'', ''INSERT'', ''DELETE'', ''COPY'', ''UNLOAD'', ''UPDATE'', ''CREATE'', ''GRANT'']"

definition allowed_queries :: string where
  "allowed_queries =
     ''Your query_type value is not correct, allowed values are '' @ join '', '' all_query_types"

text \<open>
  The \<^verbatim>\<open>if/elif\<close> chain that assigns \<^verbatim>\<open>sql_type\<close>, and \<^verbatim>\<open>data\<close> where the
  dataset came as the first argument. The result is the pair of both, or the exception.
\<close>

definition classify :: "pyval \<Rightarrow> string \<Rightarrow> pyval \<Rightarrow> exc + (string \<times> pyval)" where
  "classify sql_query query_type data =
     (if query_type \<noteq> [] then Inr (query_type, data)
      else if is_frame data then Inr (''INSERT'', data)
      else if is_frame sql_query then Inr (''INSERT'', sql_query)
      else (case py_upper sql_query of
              Inl e \<Rightarrow> Inl e
            | Inr u \<Rightarrow>
                if sublist ''UNLOAD '' u then Inr (''UNLOAD'', data)
                else if sublist ''COPY '' u then Inr (''COPY'', data)
                else if sublist ''UPDATE '' u then Inr (''UPDATE'', data)
                else if sql_query \<noteq> Str [] then Inr (''SELECT'', data)
                else Inl (ValueError (allowed_queries @ ''. Got '' @ query_type))))"

section \<open>Splitting text (line 147)\<close>

text \<open>
  \<^verbatim>\<open>s.split(sep)\<close> for a non-empty separator cuts \<open>s\<close> at the occurrences of
  \<open>sep\<close>, found from left to right without overlap. \<open>find_sep\<close> finds the leftmost
  occurrence and gives the text before and after it. Both call sites pass a constant,
  non-empty separator (Python raises \<^verbatim>\<open>ValueError\<close> on an empty one, which the
  model maps to the empty list of pieces).
\<close>

fun find_sep :: "string \<Rightarrow> string \<Rightarrow> (string \<times> string) option" where
  "find_sep sep [] = (if sep = [] then Some ([], []) else None)"
| "find_sep sep (c # cs) =
     (if prefix sep (c # cs) then Some ([], drop (length sep) (c # cs))
      else (case find_sep sep cs of None \<Rightarrow> None | Some (a, b) \<Rightarrow> Some (c # a, b)))"

function split :: "string \<Rightarrow> string \<Rightarrow> string list" where
  "split sep s =
     (if sep = [] then []
      else (case find_sep sep s of None \<Rightarrow> [s] | Some (a, b) \<Rightarrow> a # split sep b))"
  by pat_completeness auto
termination
proof (relation "measure (\<lambda>(sep, s). length s)")
  show "wf (measure (\<lambda>(sep, s). length s))" by simp
next
  fix sep s :: string and x2 :: "string \<times> string" and a b :: string
  assume nonempty: "sep \<noteq> []" and found: "find_sep sep s = Some x2" and x2: "(a, b) = x2"
  have len: "find_sep sep t = Some (u, v) \<Longrightarrow> length u + length sep + length v = length t"
    for t u v
  proof (induction t arbitrary: u v)
    case Nil
    then show ?case by (auto split: if_splits)
  next
    case (Cons c cs)
    show ?case
    proof (cases "prefix sep (c # cs)")
      case True
      then have "length sep \<le> length (c # cs)" by (rule prefix_length_le)
      with True Cons.prems show ?thesis by auto
    next
      case False
      with Cons.prems obtain u' where "find_sep sep cs = Some (u', v)" and "u = c # u'"
        by (auto split: option.splits)
      with Cons.IH [of u' v] show ?thesis by simp
    qed
  qed
  from found x2 have "length a + length sep + length b = length s"
    using len [of s a b] by simp
  with nonempty show "((sep, b), (sep, s)) \<in> measure (\<lambda>(sep, s). length s)"
    by (cases sep) auto
qed

declare split.simps [simp del]

text \<open>\<^verbatim>\<open>s.replace('\n', ' ')\<close>\<close>

definition replace_newlines :: "string \<Rightarrow> string" where
  "replace_newlines s = map (\<lambda>c. if c = CHR 0x0A then CHR '' '' else c) s"

text \<open>
  \<^verbatim>\<open>sql_query.upper().replace('\n', ' ').split('FROM ')[1].split(' ')[0]\<close>,
  from the upper-cased text on: the index \<open>[1]\<close> raises \<^verbatim>\<open>IndexError\<close> when the first split has one piece only;
  the index \<open>[0]\<close> of the second split always exists.
\<close>

definition extract_table :: "string \<Rightarrow> exc + string" where
  "extract_table upper_query =
     (case split ''FROM '' (replace_newlines upper_query) of
        _ # piece # _ \<Rightarrow>
          (case split '' '' piece of
             t # _ \<Rightarrow> Inr t
           | [] \<Rightarrow> Inl (IndexError ''list index out of range''))
      | _ \<Rightarrow> Inl (IndexError ''list index out of range''))"

section \<open>Collaborators, effects and the call's arguments\<close>

text \<open>
  What a call does to the outside world is a trace of events, in order. Each event is a
  call to a collaborator: \<^verbatim>\<open>f_read\<close>, \<^verbatim>\<open>_get_config\<close>, \<^verbatim>\<open>_get_credentials\<close>,
  entering and leaving the \<^verbatim>\<open>SSHTunnel\<close> context manager, \<^verbatim>\<open>tunnel.connector()\<close>,
  \<^verbatim>\<open>pd.read_sql\<close>, \<^verbatim>\<open>_cache\<close>, \<^verbatim>\<open>_insert_data\<close>, \<^verbatim>\<open>conn.cursor()\<close>,
  \<^verbatim>\<open>cur.execute\<close>, \<^verbatim>\<open>conn.commit()\<close> and \<^verbatim>\<open>conn.close()\<close>.
  \<open>TunnelOpened\<close> records that \<^verbatim>\<open>__enter__\<close> returned, \<open>TunnelOpenFailed\<close> that the
  constructor or \<^verbatim>\<open>__enter__\<close> raised, \<open>TunnelExit\<close> the call of \<^verbatim>\<open>__exit__\<close>.
\<close>

datatype event =
    FileRead string
  | GetConfig
  | GetCredentials
  | TunnelOpened
  | TunnelOpenFailed
  | TunnelExit
  | Connector
  | ReadSql pyval
  | CacheCall pyval string
  | InsertData pyval string bool
  | Cursor
  | Execute pyval
  | Commit
  | ConnClose

text \<open>What the call returns: the DataFrame read, or \<^verbatim>\<open>None\<close>.\<close>

datatype ret = RetFrame dataframe | RetNone

text \<open>A computation: the events so far, and the exception raised or the value.\<close>

type_synonym 'a comp = "event list \<times> (exc + 'a)"

definition bind :: "'a comp \<Rightarrow> ('a \<Rightarrow> 'b comp) \<Rightarrow> 'b comp" where
  "bind m f =
     (case m of
        (t, Inl e) \<Rightarrow> (t, Inl e)
      | (t, Inr x) \<Rightarrow> (case f x of (t', r) \<Rightarrow> (t @ t', r)))"

definition pure :: "exc + 'a \<Rightarrow> 'a comp" where
  "pure r = ([], r)"

text \<open>A call to a collaborator that returns a value, and one that returns nothing.\<close>

definition call :: "event \<Rightarrow> string + 'a \<Rightarrow> 'a comp" where
  "call ev r = ([ev], (case r of Inl x \<Rightarrow> Inl (External x) | Inr v \<Rightarrow> Inr v))"

definition call0 :: "event \<Rightarrow> string option \<Rightarrow> unit comp" where
  "call0 ev r = ([ev], (case r of Some x \<Rightarrow> Inl (External x) | None \<Rightarrow> Inr ()))"

text \<open>
  \<^verbatim>\<open>__exit__\<close> either raises, or returns a value whose truth says whether the
  exception of the block is suppressed.
\<close>

datatype exit_result = ExitRaises string | ExitReturns bool

type_synonym config = "(string \<times> string) list"

text \<open>
  The collaborators live in \<^verbatim>\<open>sqlhelper\<close>, \<^verbatim>\<open>data\<close> and pandas; the function is
  verified for every behaviour of theirs. Each is called at most once in a call of
  \<^verbatim>\<open>remote_execute_sql\<close>, so its behaviour is a function of its arguments: the name
  of the exception it raises (\<open>Inl\<close>, \<open>Some\<close>) or its value.
\<close>

record env =
  f_read :: "string \<Rightarrow> string + string"
  get_config :: "pyval \<Rightarrow> string + config"
  get_credentials :: "config \<Rightarrow> string \<Rightarrow> string + config"
  tunnel_enter :: "config \<Rightarrow> string \<Rightarrow> string \<Rightarrow> string option"
  tunnel_exit :: "exc option \<Rightarrow> exit_result"
  connector :: "string option"
  read_sql :: "pyval \<Rightarrow> string + dataframe"
  cache_lookup :: "pyval \<Rightarrow> string \<Rightarrow> string + dataframe"
  insert_data :: "pyval \<Rightarrow> string \<Rightarrow> bool \<Rightarrow> string option"
  cursor :: "string option"
  execute :: "pyval \<Rightarrow> string option"
  commit :: "string option"
  conn_close :: "string option"

text \<open>The argument \<^verbatim>\<open>cache\<close>: \<^verbatim>\<open>False\<close> by default, or the cache time as text.\<close>

datatype cache_arg = CacheBool bool | CacheStr string

fun truthy :: "cache_arg \<Rightarrow> bool" where
  "truthy (CacheBool b) = b"
| "truthy (CacheStr s) = (s \<noteq> [])"

text \<open>
  The named parameters of \<^verbatim>\<open>remote_execute_sql\<close>. The extra keyword arguments are
  handed to \<^verbatim>\<open>f_read\<close> unchanged and are part of that collaborator's behaviour.
\<close>

record args =
  sql_query :: pyval
  query_type :: string
  table :: string
  data :: pyval
  credentials :: pyval
  verbose :: bool
  connection :: string
  autofill_nan :: bool
  engine :: string
  cache :: cache_arg
  cache_name :: "string option"

section \<open>Reading the query file (lines 127 to 131)\<close>

text \<open>
  \<^verbatim>\<open>(sql_query != "") & ('.sql' in sql_query.lower())\<close> evaluates both operands, so a
  query that is not a string raises \<^verbatim>\<open>AttributeError\<close> here.
\<close>

definition load_query :: "env \<Rightarrow> string \<Rightarrow> pyval \<Rightarrow> pyval comp" where
  "load_query env sql_type q =
     (if sql_type \<noteq> ''INSERT'' then
        (case py_lower q of
           Inl e \<Rightarrow> pure (Inl e)
         | Inr l \<Rightarrow>
             (case q of
                Str p \<Rightarrow>
                  if p \<noteq> [] \<and> sublist ''.sql'' l then
                    bind (call (FileRead p) (f_read env p)) (\<lambda>body.
                      if body \<noteq> [] then pure (Inr (Str body))
                      else pure (Inl (AssertionError
                        ''Could not read your SQL file properly. Please make sure your file is saved or check your path.'')))
                  else pure (Inr q)
              | _ \<Rightarrow> pure (Inr q)))
      else pure (Inr q))"

section \<open>The block under the tunnel (lines 145 to 184)\<close>

text \<open>Lines 145 to 151: the default value of \<^verbatim>\<open>table\<close> for \<^verbatim>\<open>sql_type == 'SELECT'\<close>.\<close>

definition select_table :: "string \<Rightarrow> string \<Rightarrow> pyval \<Rightarrow> exc + string" where
  "select_table sql_type tbl q =
     (if sql_type = ''SELECT'' then
        (if tbl = [] then
           (case py_upper q of Inl e \<Rightarrow> Inl e | Inr u \<Rightarrow> extract_table u)
         else
           (case py_upper q of
              Inl e \<Rightarrow> Inl e
            | Inr u \<Rightarrow>
                if sublist (upper tbl) u then Inr tbl
                else Inl (SyntaxError ''Argument table does not match with SQL statement'')))
      else Inr tbl)"

text \<open>The text of a Python list of strings inside an f-string.\<close>

definition repr_list :: "string list \<Rightarrow> string" where
  "repr_list xs = ''['' @ join '', '' (map (\<lambda>x. [CHR 0x27] @ x @ [CHR 0x27]) xs) @ '']''"

definition write_kinds :: "string list" where
  "write_kinds = [''CREATE'', ''GRANT'', ''DELETE'', ''COPY'', ''UNLOAD'', ''UPDATE'']"

text \<open>Lines 155 to 184: the dispatch on \<^verbatim>\<open>sql_type.upper()\<close>.\<close>

definition dispatch :: "env \<Rightarrow> args \<Rightarrow> string \<Rightarrow> pyval \<Rightarrow> string \<Rightarrow> pyval \<Rightarrow> ret comp" where
  "dispatch env a sql_type q tbl d =
     (if upper sql_type = ''SELECT'' then
        (if truthy (cache a) then
           bind (call (CacheCall q sql_type) (cache_lookup env q sql_type)) (\<lambda>read.
             pure (Inr (RetFrame read)))
         else
           bind (call0 Connector (connector env)) (\<lambda>_.
           bind (call (ReadSql q) (read_sql env q)) (\<lambda>read.
           bind (call0 ConnClose (conn_close env)) (\<lambda>_.
             pure (Inr (RetFrame read))))))
      else if upper sql_type = ''INSERT'' then
        bind (call0 Connector (connector env)) (\<lambda>_.
        bind (call0 (InsertData d tbl (autofill_nan a)) (insert_data env d tbl (autofill_nan a))) (\<lambda>_.
        bind (call0 ConnClose (conn_close env)) (\<lambda>_.
          pure (Inr RetNone))))
      else if upper sql_type \<in> set write_kinds then
        (case py_upper q of
           Inl e \<Rightarrow> pure (Inl e)
         | Inr u \<Rightarrow>
             if sublist (upper tbl) u then
               bind (call0 Connector (connector env)) (\<lambda>_.
               bind (call0 Cursor (cursor env)) (\<lambda>_.
               bind (call0 (Execute q) (execute env q)) (\<lambda>_.
               bind (call0 Commit (commit env)) (\<lambda>_.
               bind (call0 ConnClose (conn_close env)) (\<lambda>_.
                 pure (Inr RetNone))))))
             else pure (Inl (ValueError ''Table does not match with SQL query'')))
      else pure (Inl (ValueError (''Unknown query_type, should be as: '' @ repr_list all_query_types))))"

text \<open>The body of the \<^verbatim>\<open>with\<close> statement.\<close>

definition tunnel_body :: "env \<Rightarrow> args \<Rightarrow> string \<Rightarrow> pyval \<Rightarrow> pyval \<Rightarrow> ret comp" where
  "tunnel_body env a sql_type q d =
     bind (pure (select_table sql_type (table a) q)) (\<lambda>tbl. dispatch env a sql_type q tbl d)"

section \<open>The tunnel's scope (line 139) and the whole call\<close>

text \<open>
  \<^verbatim>\<open>with SSHTunnel(...) as tunnel: body\<close>. When the constructor or \<^verbatim>\<open>__enter__\<close>
  raises, the body does not run and \<^verbatim>\<open>__exit__\<close> is not called. Otherwise the body
  runs and \<^verbatim>\<open>__exit__\<close> is called once when it is left: with no exception after a
  \<^verbatim>\<open>return\<close> or the end of the block, with the exception when the block raised. An
  exception of \<^verbatim>\<open>__exit__\<close> replaces the outcome; a true result suppresses the
  block's exception, and the function, which has nothing after the block, returns
  \<^verbatim>\<open>None\<close>.
\<close>

definition with_tunnel :: "env \<Rightarrow> config \<Rightarrow> string \<Rightarrow> string \<Rightarrow> ret comp \<Rightarrow> ret comp" where
  "with_tunnel env cfg conn_mode eng body =
     (case tunnel_enter env cfg conn_mode eng of
        Some x \<Rightarrow> ([TunnelOpenFailed], Inl (External x))
      | None \<Rightarrow>
          (case body of
             (t, Inr v) \<Rightarrow>
               (TunnelOpened # t @ [TunnelExit],
                (case tunnel_exit env None of
                   ExitRaises x \<Rightarrow> Inl (External x)
                 | ExitReturns _ \<Rightarrow> Inr v))
           | (t, Inl e) \<Rightarrow>
               (TunnelOpened # t @ [TunnelExit],
                (case tunnel_exit env (Some e) of
                   ExitRaises x \<Rightarrow> Inl (External x)
                 | ExitReturns suppress \<Rightarrow> if suppress then Inr RetNone else Inl e))))"

text \<open>Lines 135 to 184: resolve the credentials, then run the body under the tunnel.\<close>

definition connect_and_execute :: "env \<Rightarrow> args \<Rightarrow> string \<Rightarrow> pyval \<Rightarrow> pyval \<Rightarrow> ret comp" where
  "connect_and_execute env a sql_type q d =
     bind (call GetConfig (get_config env (credentials a))) (\<lambda>c.
     bind (call GetCredentials (get_credentials env c (connection a))) (\<lambda>cfg.
       with_tunnel env cfg (connection a) (engine a) (tunnel_body env a sql_type q d)))"

definition remote_execute_sql :: "env \<Rightarrow> args \<Rightarrow> ret comp" where
  "remote_execute_sql env a =
     (case classify (sql_query a) (query_type a) (data a) of
        Inl e \<Rightarrow> ([], Inl e)
      | Inr (sql_type, d) \<Rightarrow>
          bind (load_query env sql_type (sql_query a)) (\<lambda>q.
            connect_and_execute env a sql_type q d))"

section \<open>A concrete environment and the default arguments\<close>

text \<open>
  The defaults of the signature: \<^verbatim>\<open>sql_query=""\<close>, \<^verbatim>\<open>query_type=""\<close>,
  \<^verbatim>\<open>table=""\<close>, \<^verbatim>\<open>data={}\<close>, \<^verbatim>\<open>credentials={}\<close>, \<^verbatim>\<open>verbose=True\<close>,
  \<^verbatim>\<open>connection='direct'\<close>, \<^verbatim>\<open>autofill_nan=True\<close>, \<^verbatim>\<open>engine='default'\<close>,
  \<^verbatim>\<open>cache=False\<close>, \<^verbatim>\<open>cache_name=None\<close>.
\<close>

definition default_args :: args where
  "default_args =
     \<lparr> sql_query = Str [], query_type = [], table = [], data = Dict [], credentials = Dict [],
       verbose = True, connection = ''direct'', autofill_nan = True, engine = ''default'',
       cache = CacheBool False, cache_name = None \<rparr>"

text \<open>
  An environment in which every collaborator succeeds: files hold the text
  \<open>file_text\<close>, queries return the one-row table \<open>one_row\<close>, and \<^verbatim>\<open>__exit__\<close>
  returns a false value.
\<close>

definition one_row :: dataframe where
  "one_row = [[(''id'', Some ''1'')]]"

definition env_ok :: "string \<Rightarrow> env" where
  "env_ok file_text =
     \<lparr> f_read = (\<lambda>_. Inr file_text),
       get_config = (\<lambda>_. Inr []),
       get_credentials = (\<lambda>c _. Inr c),
       tunnel_enter = (\<lambda>_ _ _. None),
       tunnel_exit = (\<lambda>_. ExitReturns False),
       connector = None,
       read_sql = (\<lambda>_. Inr one_row),
       cache_lookup = (\<lambda>_ _. Inr one_row),
       insert_data = (\<lambda>_ _ _. None),
       cursor = None,
       execute = (\<lambda>_. None),
       commit = None,
       conn_close = None \<rparr>"

text \<open>The same environment with a tunnel that cannot be opened.\<close>

definition env_no_tunnel :: env where
  "env_no_tunnel = (env_ok [])\<lparr> tunnel_enter := (\<lambda>_ _ _. Some ''ConnectionError'') \<rparr>"

text \<open>The same environment with a backend that rejects every statement.\<close>

definition env_backend_fails :: env where
  "env_backend_fails =
     (env_ok [])\<lparr> read_sql := (\<lambda>_. Inl ''DatabaseError''),
                 execute := (\<lambda>_. Some ''DatabaseError''),
                 insert_data := (\<lambda>_ _ _. Some ''DatabaseError'') \<rparr>"

section \<open>Notions used in the statements\<close>

text \<open>An exception that comes from a collaborator, not from the function's own code.\<close>

fun is_external :: "exc \<Rightarrow> bool" where
  "is_external (External _) = True"
| "is_external _ = False"

text \<open>A computation whose only exceptions are those of collaborators.\<close>

definition only_external :: "'a comp \<Rightarrow> bool" where
  "only_external m = (case snd m of Inl e \<Rightarrow> is_external e | Inr _ \<Rightarrow> True)"

text \<open>
  ASCII text: every character is below 128, its highest bit is clear. On such text
  \<open>upper\<close> is \<^verbatim>\<open>str.upper\<close>.
\<close>

definition ascii :: "string \<Rightarrow> bool" where
  "ascii s = list_all (\<lambda>c. \<not> digit7 c) s"

text \<open>The two table-mismatch errors: line 151 for SELECT, line 179 for the write kinds.\<close>

definition mismatch_select :: exc where
  "mismatch_select = SyntaxError ''Argument table does not match with SQL statement''"

definition mismatch_write :: exc where
  "mismatch_write = ValueError ''Table does not match with SQL query''"

text \<open>
  The table of a SELECT as the specification words it: the first whitespace-delimited
  token that follows the first occurrence of \<^verbatim>\<open>FROM \<close> in the upper-cased text with
  newlines replaced by spaces; nothing when the text has no \<^verbatim>\<open>FROM \<close>.
\<close>

definition is_space :: "char \<Rightarrow> bool" where
  "is_space c = (c \<in> set [CHR '' '', CHR 0x09, CHR 0x0A, CHR 0x0B, CHR 0x0C, CHR 0x0D])"

definition spec_first_token_after_from :: "string \<Rightarrow> string option" where
  "spec_first_token_after_from sql_text =
     (case find_sep ''FROM '' (replace_newlines (upper sql_text)) of
        None \<Rightarrow> None
      | Some (_, rest) \<Rightarrow> Some (takeWhile (\<lambda>c. \<not> is_space c) (dropWhile is_space rest)))"

section \<open>Evaluation rules and basic facts\<close>

lemmas text_eval =
  upper_def lower_def to_upper_def to_lower_def lower_letters_def upper_letters_def
  replace_newlines_def sublist_code(3)

lemmas run_eval =
  remote_execute_sql_def classify_def load_query_def connect_and_execute_def with_tunnel_def
  tunnel_body_def select_table_def dispatch_def bind_def pure_def call_def call0_def
  extract_table_def split.simps write_kinds_def default_args_def env_ok_def
  env_backend_fails_def env_no_tunnel_def

lemma bind_Inr: "bind (t, Inr x) f = (t @ fst (f x), snd (f x))"
  by (simp add: bind_def split: prod.splits)

lemma bind_Inl: "bind (t, Inl e) f = (t, Inl e)"
  by (simp add: bind_def)

lemma bind_pure_Inr: "bind (pure (Inr x)) f = f x"
  by (simp add: bind_def pure_def split: prod.splits)

lemma bind_pure_Inl: "bind (pure (Inl e)) f = pure (Inl e)"
  by (simp add: bind_def pure_def)

lemma sublist_map_iff: "sublist k (map f s) \<longleftrightarrow> (\<exists>u. sublist u s \<and> map f u = k)"
proof
  assume "sublist k (map f s)"
  then show "\<exists>u. sublist u s \<and> map f u = k"
    using sublist_map_rightE [of k f s] by auto
next
  assume "\<exists>u. sublist u s \<and> map f u = k"
  then obtain u ps ss where "s = ps @ u @ ss" and "map f u = k"
    by (auto simp: sublist_def)
  then have "map f s = map f ps @ k @ map f ss" by simp
  then show "sublist k (map f s)" unfolding sublist_def by blast
qed

text \<open>
  A keyword occurs in the upper-cased text exactly when the text has a piece that is the
  keyword in some mix of upper and lower case.
\<close>

lemma contains_upper_iff: "(\<exists>u. sublist u s \<and> upper u = k) \<longleftrightarrow> sublist k (upper s)"
  by (simp add: upper_def sublist_map_iff)

section \<open>Classification by an explicit query type\<close>

text \<open>
  Claim C2. When \<^verbatim>\<open>query_type\<close> is not empty, the kind assigned (\<^verbatim>\<open>sql_type\<close>) is
  \<^verbatim>\<open>query_type\<close> itself, whatever the SQL text and the dataset are, and the dataset is
  left as given; in particular \<^verbatim>\<open>query_type="INSERT"\<close> gives \<^verbatim>\<open>INSERT\<close> for every
  text and every dataset, the empty one included. The call then goes on with that kind.
\<close>

theorem explicit_query_type_wins:
  assumes "query_type a \<noteq> []"
  shows "classify (sql_query a) (query_type a) (data a) = Inr (query_type a, data a) \<and>
         classify q ''INSERT'' d = Inr (''INSERT'', d) \<and>
         remote_execute_sql env a =
           bind (load_query env (query_type a) (sql_query a))
             (\<lambda>q'. connect_and_execute env a (query_type a) q' (data a))"
  using assms by (simp add: classify_def remote_execute_sql_def)

theorem explicit_query_type_wins_witness:
  "query_type (default_args\<lparr>sql_query := Str ''UNLOAD x to y'', query_type := ''INSERT'',
       data := DataFrame []\<rparr>) \<noteq> [] \<and>
   classify (Str ''UNLOAD x to y'') ''INSERT'' (DataFrame []) = Inr (''INSERT'', DataFrame []) \<and>
   remote_execute_sql (env_ok [])
     (default_args\<lparr>sql_query := Str ''UNLOAD x to y'', query_type := ''INSERT'',
        data := DataFrame []\<rparr>) =
     ([GetConfig, GetCredentials, TunnelOpened, Connector, InsertData (DataFrame []) [] True,
       ConnClose, TunnelExit], Inr RetNone)"
  using explicit_query_type_wins
    [of "default_args\<lparr>sql_query := Str ''UNLOAD x to y'', query_type := ''INSERT'',
           data := DataFrame []\<rparr>" "Str ''UNLOAD x to y''" "DataFrame []" "env_ok []"]
  by (simp add: run_eval text_eval)

section \<open>Classification by inspection of the text\<close>

text \<open>
  Claim C3 says that the text is searched for the keywords UNLOAD, COPY and UPDATE. The
  code searches for each keyword followed by one space: a text that holds the keyword
  followed by a bracket, or by a newline, is a SELECT.
\<close>

theorem keyword_needs_space_counterexample:
  "sublist ''UNLOAD'' (upper ''UNLOAD(select 1) TO s3'') \<and>
   classify (Str ''UNLOAD(select 1) TO s3'') [] (Dict []) = Inr (''SELECT'', Dict []) \<and>
   sublist ''COPY'' (upper (''COPY'' @ [CHR 0x0A] @ ''t FROM s3'')) \<and>
   classify (Str (''COPY'' @ [CHR 0x0A] @ ''t FROM s3'')) [] (Dict []) = Inr (''SELECT'', Dict [])"
  by (simp add: classify_def text_eval)

text \<open>
  Claim C3, amended. With an empty \<^verbatim>\<open>query_type\<close>, a non-empty SQL string and a
  payload that is no DataFrame, the text is searched, without regard to case, for
  \<^verbatim>\<open>UNLOAD \<close>, \<^verbatim>\<open>COPY \<close> and \<^verbatim>\<open>UPDATE \<close> in this order, each the keyword
  followed by one space; the first that occurs is the kind, and the kind is SELECT when
  none occurs. So every such text with \<^verbatim>\<open>UNLOAD \<close> in it, in any case, is an UNLOAD.
\<close>

theorem keyword_inspection_order:
  assumes "s \<noteq> []" and "\<not> is_frame d"
  shows "classify (Str s) [] d =
     Inr (if \<exists>u. sublist u s \<and> upper u = ''UNLOAD '' then ''UNLOAD''
          else if \<exists>u. sublist u s \<and> upper u = ''COPY '' then ''COPY''
          else if \<exists>u. sublist u s \<and> upper u = ''UPDATE '' then ''UPDATE''
          else ''SELECT'', d)"
  using assms by (simp add: classify_def contains_upper_iff)

theorem keyword_inspection_order_witness:
  "''copy then unLoad (q) to s3'' \<noteq> [] \<and> \<not> is_frame (Dict []) \<and>
   classify (Str ''copy then unLoad (q) to s3'') [] (Dict []) = Inr (''UNLOAD'', Dict [])"
  using keyword_inspection_order [of "''copy then unLoad (q) to s3''" "Dict []"]
  unfolding contains_upper_iff by (simp add: text_eval)

section \<open>The call that names nothing\<close>

text \<open>
  Claim C8. With an empty \<^verbatim>\<open>query_type\<close>, the empty string as \<^verbatim>\<open>sql_query\<close> and a
  payload that is no DataFrame, the call raises the \<^verbatim>\<open>ValueError\<close> whose message
  names every allowed kind, SELECT, INSERT, DELETE, COPY, UNLOAD, UPDATE, CREATE and
  GRANT; no kind is assigned and no collaborator is called.
\<close>

theorem empty_call_is_invalid_query:
  assumes "sql_query a = Str []" and "query_type a = []" and "\<not> is_frame (data a)"
  shows "remote_execute_sql env a =
     ([], Inl (ValueError
        ''Your query_type value is not correct, allowed values are SELECT, INSERT, DELETE, COPY, UNLOAD, UPDATE, CREATE, GRANT. Got ''))
     \<and> list_all (\<lambda>k. sublist k
        ''Your query_type value is not correct, allowed values are SELECT, INSERT, DELETE, COPY, UNLOAD, UPDATE, CREATE, GRANT. Got '')
        all_query_types"
proof
  show "remote_execute_sql env a =
     ([], Inl (ValueError
        ''Your query_type value is not correct, allowed values are SELECT, INSERT, DELETE, COPY, UNLOAD, UPDATE, CREATE, GRANT. Got ''))"
    using assms
    by (simp add: remote_execute_sql_def classify_def allowed_queries_def all_query_types_def
        upper_def)
  show "list_all (\<lambda>k. sublist k
        ''Your query_type value is not correct, allowed values are SELECT, INSERT, DELETE, COPY, UNLOAD, UPDATE, CREATE, GRANT. Got '')
        all_query_types"
    by (simp add: all_query_types_def sublist_code(3))
qed

theorem empty_call_is_invalid_query_witness:
  "sql_query default_args = Str [] \<and> query_type default_args = [] \<and>
   \<not> is_frame (data default_args) \<and>
   remote_execute_sql (env_ok []) default_args =
     ([], Inl (ValueError
        ''Your query_type value is not correct, allowed values are SELECT, INSERT, DELETE, COPY, UNLOAD, UPDATE, CREATE, GRANT. Got ''))"
  using empty_call_is_invalid_query [of default_args "env_ok []"]
  by (simp add: default_args_def)

section \<open>The trace of a call\<close>

lemma fst_bind: "fst (bind m f) = fst m @ (case snd m of Inl e \<Rightarrow> [] | Inr x \<Rightarrow> fst (f x))"
  by (cases m) (auto simp: bind_def split: sum.splits prod.splits)

lemma fst_pure: "fst (pure r) = []"
  by (simp add: pure_def)

lemma fst_call: "fst (call ev r) = [ev]"
  by (simp add: call_def)

lemma fst_call0: "fst (call0 ev r) = [ev]"
  by (simp add: call0_def)

text \<open>Nothing inside the block, and nothing before it, opens or leaves a tunnel.\<close>

lemma dispatch_trace:
  "TunnelOpened \<notin> set (fst (dispatch env a st q tbl d)) \<and>
   TunnelExit \<notin> set (fst (dispatch env a st q tbl d))"
  by (simp add: dispatch_def fst_bind fst_pure fst_call fst_call0 split: sum.splits)

lemma tunnel_body_trace:
  "TunnelOpened \<notin> set (fst (tunnel_body env a st q d)) \<and>
   TunnelExit \<notin> set (fst (tunnel_body env a st q d))"
  using dispatch_trace by (simp add: tunnel_body_def fst_bind fst_pure split: sum.splits)

lemma load_query_trace:
  "TunnelOpened \<notin> set (fst (load_query env st q)) \<and>
   TunnelExit \<notin> set (fst (load_query env st q))"
  by (simp add: load_query_def fst_bind fst_pure fst_call split: sum.splits pyval.splits)

lemma with_tunnel_trace:
  "fst (with_tunnel env cfg m e body) = [TunnelOpenFailed] \<or>
   fst (with_tunnel env cfg m e body) = TunnelOpened # fst body @ [TunnelExit]"
  by (cases body) (auto simp: with_tunnel_def split: option.splits sum.splits)

lemma connect_and_execute_trace:
  "(TunnelOpened \<notin> set (fst (connect_and_execute env a st q d)) \<and>
    TunnelExit \<notin> set (fst (connect_and_execute env a st q d))) \<or>
   (\<exists>mid. fst (connect_and_execute env a st q d) =
       [GetConfig, GetCredentials, TunnelOpened] @ mid @ [TunnelExit]
       \<and> TunnelOpened \<notin> set mid \<and> TunnelExit \<notin> set mid)"
proof (cases "get_config env (credentials a)")
  case (Inl x)
  then show ?thesis by (simp add: connect_and_execute_def bind_def call_def)
next
  case c: (Inr c)
  show ?thesis
  proof (cases "get_credentials env c (connection a)")
    case (Inl x)
    with c show ?thesis by (simp add: connect_and_execute_def bind_def call_def)
  next
    case (Inr cfg)
    let ?body = "tunnel_body env a st q d"
    from with_tunnel_trace [of env cfg "connection a" "engine a" ?body] show ?thesis
    proof
      assume "fst (with_tunnel env cfg (connection a) (engine a) ?body) = [TunnelOpenFailed]"
      with c Inr show ?thesis
        by (simp add: connect_and_execute_def fst_bind call_def)
    next
      assume "fst (with_tunnel env cfg (connection a) (engine a) ?body) =
                TunnelOpened # fst ?body @ [TunnelExit]"
      with c Inr have "fst (connect_and_execute env a st q d) =
          [GetConfig, GetCredentials, TunnelOpened] @ fst ?body @ [TunnelExit]"
        by (simp add: connect_and_execute_def fst_bind call_def)
      with tunnel_body_trace [of env a st q d] show ?thesis by blast
    qed
  qed
qed

lemma remote_execute_sql_trace:
  "(TunnelOpened \<notin> set (fst (remote_execute_sql env a)) \<and>
    TunnelExit \<notin> set (fst (remote_execute_sql env a))) \<or>
   (\<exists>pre mid. fst (remote_execute_sql env a) = pre @ [TunnelOpened] @ mid @ [TunnelExit]
       \<and> TunnelOpened \<notin> set pre \<and> TunnelExit \<notin> set pre
       \<and> TunnelOpened \<notin> set mid \<and> TunnelExit \<notin> set mid)"
proof (cases "classify (sql_query a) (query_type a) (data a)")
  case (Inl e)
  then show ?thesis by (simp add: remote_execute_sql_def)
next
  case (Inr r)
  obtain st d where r: "r = (st, d)" by (cases r)
  let ?load = "load_query env st (sql_query a)"
  show ?thesis
  proof (cases "snd ?load")
    case (Inl e)
    with Inr r load_query_trace [of env st "sql_query a"] show ?thesis
      by (simp add: remote_execute_sql_def fst_bind)
  next
    case q: (Inr q)
    with Inr r have t: "fst (remote_execute_sql env a) =
        fst ?load @ fst (connect_and_execute env a st q d)"
      by (simp add: remote_execute_sql_def fst_bind)
    from connect_and_execute_trace [of env a st q d] show ?thesis
    proof (elim disjE exE conjE)
      assume "TunnelOpened \<notin> set (fst (connect_and_execute env a st q d))"
        and "TunnelExit \<notin> set (fst (connect_and_execute env a st q d))"
      with t load_query_trace [of env st "sql_query a"] show ?thesis by simp
    next
      fix mid
      assume "fst (connect_and_execute env a st q d) =
          [GetConfig, GetCredentials, TunnelOpened] @ mid @ [TunnelExit]"
        and m: "TunnelOpened \<notin> set mid" "TunnelExit \<notin> set mid"
      with t have "fst (remote_execute_sql env a) =
          (fst ?load @ [GetConfig, GetCredentials]) @ [TunnelOpened] @ mid @ [TunnelExit]"
        by simp
      moreover have "TunnelOpened \<notin> set (fst ?load @ [GetConfig, GetCredentials])"
        and "TunnelExit \<notin> set (fst ?load @ [GetConfig, GetCredentials])"
        using load_query_trace [of env st "sql_query a"] by simp_all
      ultimately show ?thesis using m by blast
    qed
  qed
qed

section \<open>Release of the tunnel\<close>

text \<open>
  Claim C1. In every call that opens a tunnel session, \<^verbatim>\<open>__exit__\<close> of the session is
  called exactly once, the session is opened once, and the release is the last thing the
  call does before it returns or raises, whatever the collaborators do: on a normal
  return, when the backend raises, and when the block raises an error of its own.
\<close>

theorem tunnel_released_exactly_once:
  assumes "TunnelOpened \<in> set (fst (remote_execute_sql env a))"
  shows "count_list (fst (remote_execute_sql env a)) TunnelExit = 1 \<and>
         count_list (fst (remote_execute_sql env a)) TunnelOpened = 1 \<and>
         last (fst (remote_execute_sql env a)) = TunnelExit"
proof -
  from remote_execute_sql_trace [of env a] assms
  obtain pre mid where t: "fst (remote_execute_sql env a) = pre @ [TunnelOpened] @ mid @ [TunnelExit]"
    and "TunnelOpened \<notin> set pre" "TunnelExit \<notin> set pre"
    and "TunnelOpened \<notin> set mid" "TunnelExit \<notin> set mid"
    by blast
  then have "count_list pre TunnelExit = 0" "count_list mid TunnelExit = 0"
    "count_list pre TunnelOpened = 0" "count_list mid TunnelOpened = 0"
    by (simp_all add: count_list_0_iff)
  with t show ?thesis by simp
qed

text \<open>
  The three exits: a query that returns, a backend that rejects the query, and a query
  with no \<^verbatim>\<open>FROM\<close>, on which the table extraction raises \<^verbatim>\<open>IndexError\<close>.
\<close>

theorem tunnel_released_exactly_once_witness:
  "(TunnelOpened \<in> set (fst (remote_execute_sql (env_ok [])
        (default_args\<lparr>sql_query := Str ''select * from t''\<rparr>))) \<and>
    snd (remote_execute_sql (env_ok []) (default_args\<lparr>sql_query := Str ''select * from t''\<rparr>))
      = Inr (RetFrame one_row) \<and>
    count_list (fst (remote_execute_sql (env_ok [])
        (default_args\<lparr>sql_query := Str ''select * from t''\<rparr>))) TunnelExit = 1) \<and>
   (TunnelOpened \<in> set (fst (remote_execute_sql env_backend_fails
        (default_args\<lparr>sql_query := Str ''select * from t''\<rparr>))) \<and>
    snd (remote_execute_sql env_backend_fails (default_args\<lparr>sql_query := Str ''select * from t''\<rparr>))
      = Inl (External ''DatabaseError'') \<and>
    count_list (fst (remote_execute_sql env_backend_fails
        (default_args\<lparr>sql_query := Str ''select * from t''\<rparr>))) TunnelExit = 1) \<and>
   (TunnelOpened \<in> set (fst (remote_execute_sql (env_ok [])
        (default_args\<lparr>sql_query := Str ''select 1''\<rparr>))) \<and>
    snd (remote_execute_sql (env_ok []) (default_args\<lparr>sql_query := Str ''select 1''\<rparr>))
      = Inl (IndexError ''list index out of range'') \<and>
    count_list (fst (remote_execute_sql (env_ok [])
        (default_args\<lparr>sql_query := Str ''select 1''\<rparr>))) TunnelExit = 1)"
proof -
  have r1: "remote_execute_sql (env_ok []) (default_args\<lparr>sql_query := Str ''select * from t''\<rparr>) =
      ([GetConfig, GetCredentials, TunnelOpened, Connector, ReadSql (Str ''select * from t''),
        ConnClose, TunnelExit], Inr (RetFrame one_row))"
    by (simp add: run_eval text_eval)
  have r2: "remote_execute_sql env_backend_fails (default_args\<lparr>sql_query := Str ''select * from t''\<rparr>) =
      ([GetConfig, GetCredentials, TunnelOpened, Connector, ReadSql (Str ''select * from t''),
        TunnelExit], Inl (External ''DatabaseError''))"
    by (simp add: run_eval text_eval)
  have r3: "remote_execute_sql (env_ok []) (default_args\<lparr>sql_query := Str ''select 1''\<rparr>) =
      ([GetConfig, GetCredentials, TunnelOpened, TunnelExit],
       Inl (IndexError ''list index out of range''))"
    by (simp add: run_eval text_eval)
  show ?thesis
    using tunnel_released_exactly_once
        [of "env_ok []" "default_args\<lparr>sql_query := Str ''select * from t''\<rparr>"]
      tunnel_released_exactly_once
        [of env_backend_fails "default_args\<lparr>sql_query := Str ''select * from t''\<rparr>"]
      tunnel_released_exactly_once
        [of "env_ok []" "default_args\<lparr>sql_query := Str ''select 1''\<rparr>"]
    by (simp add: r1 r2 r3)
qed

section \<open>The dataset as first argument\<close>

text \<open>
  Claim C10. When \<^verbatim>\<open>sql_query\<close> is a DataFrame, \<^verbatim>\<open>query_type\<close> is empty and
  \<^verbatim>\<open>data\<close> is no DataFrame, the kind is \<^verbatim>\<open>INSERT\<close> and the DataFrame becomes the data:
  no file is read, the call goes on to the credentials and the tunnel, and the block hands
  that DataFrame, with the table name, to \<^verbatim>\<open>_insert_data\<close>.
\<close>

theorem dataset_as_first_argument:
  assumes "sql_query a = DataFrame df" and "query_type a = []" and "\<not> is_frame (data a)"
  shows "classify (sql_query a) (query_type a) (data a) = Inr (''INSERT'', DataFrame df) \<and>
         remote_execute_sql env a =
           connect_and_execute env a ''INSERT'' (DataFrame df) (DataFrame df) \<and>
         tunnel_body env a ''INSERT'' (DataFrame df) (DataFrame df) =
           bind (call0 Connector (connector env)) (\<lambda>_.
           bind (call0 (InsertData (DataFrame df) (table a) (autofill_nan a))
                   (insert_data env (DataFrame df) (table a) (autofill_nan a))) (\<lambda>_.
           bind (call0 ConnClose (conn_close env)) (\<lambda>_.
             pure (Inr RetNone))))"
proof -
  have up: "upper ''INSERT'' = ''INSERT''" "upper ''INSERT'' \<noteq> ''SELECT''"
    by (simp_all add: text_eval)
  from assms have c: "classify (sql_query a) (query_type a) (data a) = Inr (''INSERT'', DataFrame df)"
    by (simp add: classify_def)
  then have "remote_execute_sql env a =
      connect_and_execute env a ''INSERT'' (DataFrame df) (DataFrame df)"
    using assms by (simp add: remote_execute_sql_def load_query_def bind_pure_Inr)
  moreover have "tunnel_body env a ''INSERT'' (DataFrame df) (DataFrame df) =
           bind (call0 Connector (connector env)) (\<lambda>_.
           bind (call0 (InsertData (DataFrame df) (table a) (autofill_nan a))
                   (insert_data env (DataFrame df) (table a) (autofill_nan a))) (\<lambda>_.
           bind (call0 ConnClose (conn_close env)) (\<lambda>_.
             pure (Inr RetNone))))"
    by (simp add: tunnel_body_def select_table_def bind_pure_Inr dispatch_def up)
  ultimately show ?thesis using c by simp
qed

theorem dataset_as_first_argument_witness:
  "sql_query (default_args\<lparr>sql_query := DataFrame one_row, table := ''T''\<rparr>) = DataFrame one_row \<and>
   query_type (default_args\<lparr>sql_query := DataFrame one_row, table := ''T''\<rparr>) = [] \<and>
   \<not> is_frame (data (default_args\<lparr>sql_query := DataFrame one_row, table := ''T''\<rparr>)) \<and>
   remote_execute_sql (env_ok []) (default_args\<lparr>sql_query := DataFrame one_row, table := ''T''\<rparr>) =
     ([GetConfig, GetCredentials, TunnelOpened, Connector, InsertData (DataFrame one_row) ''T'' True,
       ConnClose, TunnelExit], Inr RetNone)"
  using dataset_as_first_argument
    [of "default_args\<lparr>sql_query := DataFrame one_row, table := ''T''\<rparr>" one_row "env_ok []"]
  by (simp add: run_eval text_eval)

section \<open>The query file and the classification\<close>

lemma load_query_file:
  assumes "st \<noteq> ''INSERT''" and "p \<noteq> []" and "sublist ''.sql'' (lower p)"
    and "f_read env p = Inr body" and "body \<noteq> []"
  shows "load_query env st (Str p) = ([FileRead p], Inr (Str body))"
  using assms by (simp add: load_query_def call_def bind_def pure_def)

text \<open>
  Claim C6 says that the file is read before the kind is determined, so that the kind
  comes from the file's contents. The code determines the kind first, from the path: for
  the path \<^verbatim>\<open>q.sql\<close> and a file that holds a \<^verbatim>\<open>COPY\<close> statement the kind is
  \<^verbatim>\<open>SELECT\<close>, where the contents alone would give \<^verbatim>\<open>COPY\<close>, and the statement is
  sent through \<^verbatim>\<open>pd.read_sql\<close>.
\<close>

theorem kind_from_path_counterexample:
  "classify (Str ''COPY T FROM S3'') [] (Dict []) = Inr (''COPY'', Dict []) \<and>
   classify (Str ''q.sql'') [] (Dict []) = Inr (''SELECT'', Dict []) \<and>
   remote_execute_sql (env_ok ''COPY T FROM S3'') (default_args\<lparr>sql_query := Str ''q.sql''\<rparr>) =
     ([FileRead ''q.sql'', GetConfig, GetCredentials, TunnelOpened, Connector,
       ReadSql (Str ''COPY T FROM S3''), ConnClose, TunnelExit], Inr (RetFrame one_row))"
  by (simp add: run_eval text_eval)

text \<open>
  Claim C6, amended. When \<^verbatim>\<open>sql_query\<close> is a non-empty string with \<^verbatim>\<open>.sql\<close> in it
  (in any case), the kind is determined first, from \<^verbatim>\<open>query_type\<close>, the data and the
  path string; when that kind is not \<^verbatim>\<open>INSERT\<close>, the file is then read, and its text,
  when not empty, is the query body for the table check and the execution under the kind
  already assigned.
\<close>

theorem query_file_read_after_classification:
  assumes "sql_query a = Str p" and "p \<noteq> []" and "sublist ''.sql'' (lower p)"
    and "classify (Str p) (query_type a) (data a) = Inr (st, d)" and "st \<noteq> ''INSERT''"
    and "f_read env p = Inr body" and "body \<noteq> []"
  shows "remote_execute_sql env a =
     (FileRead p # fst (connect_and_execute env a st (Str body) d),
      snd (connect_and_execute env a st (Str body) d))"
  using assms by (simp add: remote_execute_sql_def load_query_file bind_Inr)

theorem query_file_read_after_classification_witness:
  "sql_query (default_args\<lparr>sql_query := Str ''q.sql''\<rparr>) = Str ''q.sql'' \<and> ''q.sql'' \<noteq> [] \<and>
   sublist ''.sql'' (lower ''q.sql'') \<and>
   classify (Str ''q.sql'') (query_type (default_args\<lparr>sql_query := Str ''q.sql''\<rparr>))
     (data (default_args\<lparr>sql_query := Str ''q.sql''\<rparr>)) = Inr (''SELECT'', Dict []) \<and>
   ''SELECT'' \<noteq> ''INSERT'' \<and>
   f_read (env_ok ''select * from t'') ''q.sql'' = Inr ''select * from t'' \<and>
   ''select * from t'' \<noteq> [] \<and>
   remote_execute_sql (env_ok ''select * from t'') (default_args\<lparr>sql_query := Str ''q.sql''\<rparr>) =
     ([FileRead ''q.sql'', GetConfig, GetCredentials, TunnelOpened, Connector,
       ReadSql (Str ''select * from t''), ConnClose, TunnelExit], Inr (RetFrame one_row))"
  using query_file_read_after_classification
    [of "default_args\<lparr>sql_query := Str ''q.sql''\<rparr>" "''q.sql''" "''SELECT''" "Dict []"
        "env_ok ''select * from t''" "''select * from t''"]
  by (simp add: run_eval text_eval)

section \<open>Where the errors of the call itself are raised\<close>

lemma only_external_call: "only_external (call ev r)"
  by (simp add: only_external_def call_def split: sum.splits)

lemma only_external_call0: "only_external (call0 ev r)"
  by (simp add: only_external_def call0_def split: option.splits)

lemma only_external_pure: "only_external (pure (Inr x))"
  by (simp add: only_external_def pure_def)

lemma only_external_bind:
  assumes "only_external m" and "\<And>x. only_external (f x)"
  shows "only_external (bind m f)"
proof (cases m)
  case (Pair t r)
  show ?thesis
  proof (cases r)
    case (Inl e)
    with Pair assms(1) show ?thesis by (simp add: only_external_def bind_def)
  next
    case (Inr x)
    with Pair assms(2) [of x] show ?thesis
      by (cases "f x") (simp add: only_external_def bind_def)
  qed
qed

lemmas only_external_intros =
  only_external_bind only_external_call only_external_call0 only_external_pure

text \<open>
  An exception of the function's own is raised in the block before any collaborator is
  called there: once a collaborator was called, the only exception is a collaborator's.
\<close>

lemma dispatch_own_error:
  "only_external (dispatch env a st q tbl d) \<or> fst (dispatch env a st q tbl d) = []"
  by (auto simp: dispatch_def fst_pure intro!: only_external_intros split: sum.splits)

lemma tunnel_body_own_error:
  "only_external (tunnel_body env a st q d) \<or> fst (tunnel_body env a st q d) = []"
proof (cases "select_table st (table a) q")
  case (Inl e)
  then show ?thesis by (simp add: tunnel_body_def bind_pure_Inl fst_pure)
next
  case (Inr tbl)
  with dispatch_own_error [of env a st q tbl d] show ?thesis
    by (simp add: tunnel_body_def bind_pure_Inr)
qed

lemma with_tunnel_own_error:
  assumes "snd (with_tunnel env cfg m eng body) = Inl e" and "\<not> is_external e"
  shows "snd body = Inl e \<and> fst (with_tunnel env cfg m eng body) = TunnelOpened # fst body @ [TunnelExit]"
  using assms
  by (cases body) (auto simp: with_tunnel_def split: option.splits sum.splits exit_result.splits if_splits)

lemma connect_and_execute_own_error:
  assumes "snd (connect_and_execute env a st q d) = Inl e" and "\<not> is_external e"
  shows "fst (connect_and_execute env a st q d) = [GetConfig, GetCredentials, TunnelOpened, TunnelExit]"
proof (cases "get_config env (credentials a)")
  case (Inl x)
  with assms show ?thesis by (auto simp: connect_and_execute_def bind_def call_def)
next
  case c: (Inr c)
  show ?thesis
  proof (cases "get_credentials env c (connection a)")
    case (Inl x)
    with c assms show ?thesis by (auto simp: connect_and_execute_def bind_def call_def)
  next
    case (Inr cfg)
    let ?body = "tunnel_body env a st q d"
    let ?w = "with_tunnel env cfg (connection a) (engine a) ?body"
    from c Inr have ce: "connect_and_execute env a st q d = ([GetConfig, GetCredentials] @ fst ?w, snd ?w)"
      by (simp add: connect_and_execute_def bind_def call_def split: prod.splits)
    with assms have "snd ?w = Inl e" by simp
    from with_tunnel_own_error [OF this assms(2)]
    have b: "snd ?body = Inl e" and w: "fst ?w = TunnelOpened # fst ?body @ [TunnelExit]"
      by simp_all
    from b assms(2) have "\<not> only_external ?body" by (simp add: only_external_def)
    with tunnel_body_own_error [of env a st q d] have "fst ?body = []" by simp
    with ce w show ?thesis by simp
  qed
qed

lemma classify_error_not_mismatch:
  "classify q qt d = Inl e \<Longrightarrow> e \<noteq> mismatch_select \<and> e \<noteq> mismatch_write"
  by (cases q)
    (auto simp: classify_def mismatch_select_def mismatch_write_def allowed_queries_def
      split: if_splits)

lemma load_query_error_not_mismatch:
  "snd (load_query env st q) = Inl e \<Longrightarrow> e \<noteq> mismatch_select \<and> e \<noteq> mismatch_write"
  by (cases q)
    (auto simp: load_query_def mismatch_select_def mismatch_write_def bind_def call_def pure_def
      split: if_splits sum.splits)

lemma load_query_events:
  "fst (load_query env st q) = [] \<or> (\<exists>p. fst (load_query env st q) = [FileRead p])"
  by (cases q) (auto simp: load_query_def fst_bind fst_pure fst_call split: sum.splits)

text \<open>
  Claim C5 says that every classification error, the table mismatch included, is raised
  before credentials are resolved and before a tunnel is opened. The table is checked
  inside the tunnel's scope: with the statement \<^verbatim>\<open>DELETE FROM ORDERS WHERE id=1\<close>
  and the table \<^verbatim>\<open>CUSTOMERS\<close>, the credentials are resolved and the tunnel is opened
  and released before the error leaves the call.
\<close>

theorem table_mismatch_after_tunnel_counterexample:
  "remote_execute_sql (env_ok [])
     (default_args\<lparr>sql_query := Str ''DELETE FROM ORDERS WHERE id=1'', query_type := ''DELETE'',
        table := ''CUSTOMERS''\<rparr>) =
     ([GetConfig, GetCredentials, TunnelOpened, TunnelExit],
      Inl (ValueError ''Table does not match with SQL query''))"
  by (simp add: run_eval text_eval)

text \<open>
  Claim C5, amended. An error of the classification (the \<^verbatim>\<open>ValueError\<close> that lists
  the allowed kinds) is raised before any collaborator is called: no file is read, no
  credentials are resolved, no tunnel is opened. A table-mismatch error is raised inside
  the tunnel's scope: when a call ends with it, the credentials were resolved and the
  tunnel was opened and released, and nothing else happened but, before these, the
  reading of the query file; no connector was requested and no statement was executed.
\<close>

theorem own_errors_and_resources:
  "(classify (sql_query a) (query_type a) (data a) = Inl e \<longrightarrow>
      remote_execute_sql env a = ([], Inl e)) \<and>
   (snd (remote_execute_sql env a) = Inl mismatch_select \<or>
    snd (remote_execute_sql env a) = Inl mismatch_write \<longrightarrow>
      fst (remote_execute_sql env a) = [GetConfig, GetCredentials, TunnelOpened, TunnelExit] \<or>
      (\<exists>p. fst (remote_execute_sql env a) =
              [FileRead p, GetConfig, GetCredentials, TunnelOpened, TunnelExit]))"
proof (intro conjI impI)
  assume "classify (sql_query a) (query_type a) (data a) = Inl e"
  then show "remote_execute_sql env a = ([], Inl e)"
    by (simp add: remote_execute_sql_def)
next
  let ?r = "remote_execute_sql env a"
  assume "snd ?r = Inl mismatch_select \<or> snd ?r = Inl mismatch_write"
  then obtain x where x: "snd ?r = Inl x" and xm: "x = mismatch_select \<or> x = mismatch_write"
    by blast
  then have own: "\<not> is_external x"
    by (auto simp: mismatch_select_def mismatch_write_def)
  show "fst ?r = [GetConfig, GetCredentials, TunnelOpened, TunnelExit] \<or>
      (\<exists>p. fst ?r = [FileRead p, GetConfig, GetCredentials, TunnelOpened, TunnelExit])"
  proof (cases "classify (sql_query a) (query_type a) (data a)")
    case (Inl e')
    with x have "e' = x" by (simp add: remote_execute_sql_def)
    with classify_error_not_mismatch [OF Inl] xm show ?thesis by simp
  next
    case (Inr r)
    obtain st d where r: "r = (st, d)" by (cases r)
    let ?load = "load_query env st (sql_query a)"
    show ?thesis
    proof (cases "snd ?load")
      case (Inl e')
      with Inr r have "snd ?r = Inl e'"
        by (cases ?load) (simp add: remote_execute_sql_def bind_def)
      with x have "e' = x" by simp
      with load_query_error_not_mismatch [OF Inl] xm show ?thesis by simp
    next
      case q: (Inr q)
      with Inr r have eq: "?r = (fst ?load @ fst (connect_and_execute env a st q d),
          snd (connect_and_execute env a st q d))"
        by (cases ?load) (simp add: remote_execute_sql_def bind_Inr)
      with x have "snd (connect_and_execute env a st q d) = Inl x" by simp
      from connect_and_execute_own_error [OF this own] eq
      have "fst ?r = fst ?load @ [GetConfig, GetCredentials, TunnelOpened, TunnelExit]"
        by simp
      with load_query_events [of env st "sql_query a"] show ?thesis by auto
    qed
  qed
qed

theorem own_errors_and_resources_witness:
  "(classify (sql_query default_args) (query_type default_args) (data default_args) =
      Inl (ValueError (allowed_queries @ ''. Got '')) \<and>
    remote_execute_sql (env_ok []) default_args =
      ([], Inl (ValueError (allowed_queries @ ''. Got '')))) \<and>
   (snd (remote_execute_sql (env_ok [])
       (default_args\<lparr>sql_query := Str ''select * from orders'', table := ''CUSTOMERS''\<rparr>)) =
      Inl mismatch_select \<and>
    fst (remote_execute_sql (env_ok [])
       (default_args\<lparr>sql_query := Str ''select * from orders'', table := ''CUSTOMERS''\<rparr>)) =
      [GetConfig, GetCredentials, TunnelOpened, TunnelExit])"
proof -
  have c: "classify (sql_query default_args) (query_type default_args) (data default_args) =
      Inl (ValueError (allowed_queries @ ''. Got ''))"
    by (simp add: classify_def default_args_def upper_def)
  have s: "snd (remote_execute_sql (env_ok [])
       (default_args\<lparr>sql_query := Str ''select * from orders'', table := ''CUSTOMERS''\<rparr>)) =
      Inl mismatch_select"
    by (simp add: run_eval text_eval mismatch_select_def)
  have n: "\<not> (\<exists>p. fst (remote_execute_sql (env_ok [])
       (default_args\<lparr>sql_query := Str ''select * from orders'', table := ''CUSTOMERS''\<rparr>)) =
      [FileRead p, GetConfig, GetCredentials, TunnelOpened, TunnelExit])"
    by (simp add: run_eval text_eval)
  show ?thesis
    using own_errors_and_resources
        [of default_args "ValueError (allowed_queries @ ''. Got '')" "env_ok []"]
      own_errors_and_resources
        [of "default_args\<lparr>sql_query := Str ''select * from orders'', table := ''CUSTOMERS''\<rparr>"
            mismatch_select "env_ok []"]
      c s n
    by simp
qed

section \<open>The table name and the SQL text\<close>

lemma with_tunnel_plain:
  assumes "tunnel_enter env cfg m eng = None" and "\<And>e. tunnel_exit env e = ExitReturns False"
  shows "with_tunnel env cfg m eng body = (TunnelOpened # fst body @ [TunnelExit], snd body)"
  using assms by (cases body) (auto simp: with_tunnel_def split: sum.splits)

lemma connect_and_execute_plain:
  assumes "get_config env (credentials a) = Inr c"
    and "get_credentials env c (connection a) = Inr cfg"
    and "tunnel_enter env cfg (connection a) (engine a) = None"
    and "\<And>e. tunnel_exit env e = ExitReturns False"
  shows "connect_and_execute env a st q d =
     ([GetConfig, GetCredentials, TunnelOpened] @ fst (tunnel_body env a st q d) @ [TunnelExit],
      snd (tunnel_body env a st q d))"
  using assms(1,2) with_tunnel_plain [OF assms(3,4)]
  by (simp add: connect_and_execute_def call_def bind_Inr)

lemma upper_write_kind:
  assumes "upper st \<in> set write_kinds"
  shows "st \<noteq> ''SELECT''" and "upper st \<noteq> ''SELECT''" and "upper st \<noteq> ''INSERT''"
proof -
  have "upper ''SELECT'' = ''SELECT''" by (simp add: text_eval)
  with assms show "st \<noteq> ''SELECT''" by (auto simp: write_kinds_def)
  from assms show "upper st \<noteq> ''SELECT''" and "upper st \<noteq> ''INSERT''"
    by (auto simp: write_kinds_def)
qed

lemma tunnel_body_checked:
  assumes "(st = ''SELECT'' \<and> table a \<noteq> []) \<or> upper st \<in> set write_kinds"
  shows "tunnel_body env a st (Str s) d =
     (if sublist (upper (table a)) (upper s) then dispatch env a st (Str s) (table a) d
      else ([], Inl (if st = ''SELECT'' then mismatch_select else mismatch_write)))"
  using assms
proof
  assume "st = ''SELECT'' \<and> table a \<noteq> []"
  then show ?thesis
    by (simp add: tunnel_body_def select_table_def bind_Inr bind_Inl pure_def
        mismatch_select_def)
next
  assume w: "upper st \<in> set write_kinds"
  note upper_write_kind [OF w]
  with w show ?thesis
    by (simp add: tunnel_body_def select_table_def bind_Inr dispatch_def pure_def
        mismatch_write_def)
qed

lemma dispatch_first_event:
  assumes "(st = ''SELECT'' \<and> table a \<noteq> []) \<or> upper st \<in> set write_kinds"
    and "sublist (upper tbl) (upper s)"
  shows "\<exists>rest. fst (dispatch env a st (Str s) tbl d) = Connector # rest \<or>
                fst (dispatch env a st (Str s) tbl d) = CacheCall (Str s) st # rest"
  using assms(1)
proof
  assume "st = ''SELECT'' \<and> table a \<noteq> []"
  moreover have "upper ''SELECT'' = ''SELECT''" by (simp add: text_eval)
  ultimately show ?thesis
    by (simp add: dispatch_def fst_bind fst_call fst_call0)
next
  assume w: "upper st \<in> set write_kinds"
  note upper_write_kind [OF w]
  with w assms(2) show ?thesis
    by (simp add: dispatch_def fst_bind fst_call fst_call0)
qed

text \<open>
  Claim C4 says that the call fails with the table-mismatch error whenever the given table
  name does not appear in the SQL text. The code compares the two in upper case: the
  table \<^verbatim>\<open>orders\<close> does not appear in \<^verbatim>\<open>DELETE FROM ORDERS WHERE id=1\<close>, and
  the statement is executed and committed. And the code checks the table inside the
  tunnel's scope only: with the table \<^verbatim>\<open>CUSTOMERS\<close> and a tunnel that cannot be
  opened, the call ends with the tunnel's error, not with the mismatch.
\<close>

theorem table_check_ignores_case_counterexample:
  "\<not> sublist ''orders'' ''DELETE FROM ORDERS WHERE id=1'' \<and>
   remote_execute_sql (env_ok [])
     (default_args\<lparr>sql_query := Str ''DELETE FROM ORDERS WHERE id=1'', query_type := ''DELETE'',
        table := ''orders''\<rparr>) =
     ([GetConfig, GetCredentials, TunnelOpened, Connector, Cursor,
       Execute (Str ''DELETE FROM ORDERS WHERE id=1''), Commit, ConnClose, TunnelExit],
      Inr RetNone) \<and>
   \<not> sublist ''CUSTOMERS'' ''DELETE FROM ORDERS WHERE id=1'' \<and>
   remote_execute_sql env_no_tunnel
     (default_args\<lparr>sql_query := Str ''DELETE FROM ORDERS WHERE id=1'', query_type := ''DELETE'',
        table := ''CUSTOMERS''\<rparr>) =
     ([GetConfig, GetCredentials, TunnelOpenFailed], Inl (External ''ConnectionError''))"
  by (simp add: run_eval text_eval)

text \<open>
  Claim C4, amended. Take a call whose kind is exactly \<^verbatim>\<open>SELECT\<close> with a table name
  given, or whose kind in upper case is one of CREATE, GRANT, DELETE, COPY, UNLOAD and
  UPDATE, whose query text is \<open>s\<close> after the file step, with the table name and \<open>s\<close> in
  ASCII, and for which the credentials are resolved, the tunnel opens and its release
  neither raises nor suppresses. If the table
  name in upper case does not occur in \<open>s\<close> in upper case, the call raises the
  table-mismatch error (\<^verbatim>\<open>SyntaxError\<close> for SELECT, \<^verbatim>\<open>ValueError\<close> otherwise) after
  the tunnel is released, and neither a connector nor the backend is reached. If it
  occurs, the call goes on with the dispatch, which starts by requesting the connector,
  or the cache for a cached SELECT.
\<close>

theorem table_name_check:
  assumes "classify (sql_query a) (query_type a) (data a) = Inr (st, d)"
    and "load_query env st (sql_query a) = (pre, Inr (Str s))"
    and "get_config env (credentials a) = Inr c"
    and "get_credentials env c (connection a) = Inr cfg"
    and "tunnel_enter env cfg (connection a) (engine a) = None"
    and "\<And>e. tunnel_exit env e = ExitReturns False"
    and "(st = ''SELECT'' \<and> table a \<noteq> []) \<or> upper st \<in> set write_kinds"
    and "ascii (table a)" and "ascii s"
  shows "remote_execute_sql env a =
     (if sublist (upper (table a)) (upper s)
      then (pre @ [GetConfig, GetCredentials, TunnelOpened] @
              fst (dispatch env a st (Str s) (table a) d) @ [TunnelExit],
            snd (dispatch env a st (Str s) (table a) d))
      else (pre @ [GetConfig, GetCredentials, TunnelOpened, TunnelExit],
            Inl (if st = ''SELECT'' then mismatch_select else mismatch_write))) \<and>
     (if sublist (upper (table a)) (upper s)
      then \<exists>rest. fst (dispatch env a st (Str s) (table a) d) = Connector # rest \<or>
                  fst (dispatch env a st (Str s) (table a) d) = CacheCall (Str s) st # rest
      else True)"
proof -
  have "remote_execute_sql env a =
      (pre @ fst (connect_and_execute env a st (Str s) d),
       snd (connect_and_execute env a st (Str s) d))"
    using assms(1,2) by (simp add: remote_execute_sql_def bind_Inr)
  also have "connect_and_execute env a st (Str s) d =
     ([GetConfig, GetCredentials, TunnelOpened] @ fst (tunnel_body env a st (Str s) d) @ [TunnelExit],
      snd (tunnel_body env a st (Str s) d))"
    by (rule connect_and_execute_plain [OF assms(3-6)])
  finally have r: "remote_execute_sql env a =
     (pre @ [GetConfig, GetCredentials, TunnelOpened] @ fst (tunnel_body env a st (Str s) d) @ [TunnelExit],
      snd (tunnel_body env a st (Str s) d))"
    by simp
  show ?thesis
    using dispatch_first_event [OF assms(7), of "table a" s env d]
    by (simp add: r tunnel_body_checked [OF assms(7)])
qed

text \<open>
  The statement \<^verbatim>\<open>DELETE FROM ORDERS WHERE id=1\<close> with the table \<^verbatim>\<open>ORDERS\<close> is
  executed; with the table \<^verbatim>\<open>CUSTOMERS\<close> it is not.
\<close>

theorem table_name_check_witness:
  "classify (Str ''DELETE FROM ORDERS WHERE id=1'') ''DELETE'' (Dict []) = Inr (''DELETE'', Dict []) \<and>
   load_query (env_ok []) ''DELETE'' (Str ''DELETE FROM ORDERS WHERE id=1'') =
     ([], Inr (Str ''DELETE FROM ORDERS WHERE id=1'')) \<and>
   get_config (env_ok []) (Dict []) = Inr [] \<and>
   get_credentials (env_ok []) [] ''direct'' = Inr [] \<and>
   tunnel_enter (env_ok []) [] ''direct'' ''default'' = None \<and>
   (\<forall>e. tunnel_exit (env_ok []) e = ExitReturns False) \<and>
   upper ''DELETE'' \<in> set write_kinds \<and>
   ascii ''ORDERS'' \<and> ascii ''CUSTOMERS'' \<and> ascii ''DELETE FROM ORDERS WHERE id=1'' \<and>
   remote_execute_sql (env_ok [])
     (default_args\<lparr>sql_query := Str ''DELETE FROM ORDERS WHERE id=1'', query_type := ''DELETE'',
        table := ''ORDERS''\<rparr>) =
     ([GetConfig, GetCredentials, TunnelOpened, Connector, Cursor,
       Execute (Str ''DELETE FROM ORDERS WHERE id=1''), Commit, ConnClose, TunnelExit],
      Inr RetNone) \<and>
   remote_execute_sql (env_ok [])
     (default_args\<lparr>sql_query := Str ''DELETE FROM ORDERS WHERE id=1'', query_type := ''DELETE'',
        table := ''CUSTOMERS''\<rparr>) =
     ([GetConfig, GetCredentials, TunnelOpened, TunnelExit], Inl mismatch_write)"
  using table_name_check
      [of "default_args\<lparr>sql_query := Str ''DELETE FROM ORDERS WHERE id=1'',
             query_type := ''DELETE'', table := ''ORDERS''\<rparr>"
          "''DELETE''" "Dict []" "env_ok []" "[]" "''DELETE FROM ORDERS WHERE id=1''" "[]" "[]"]
    table_name_check
      [of "default_args\<lparr>sql_query := Str ''DELETE FROM ORDERS WHERE id=1'',
             query_type := ''DELETE'', table := ''CUSTOMERS''\<rparr>"
          "''DELETE''" "Dict []" "env_ok []" "[]" "''DELETE FROM ORDERS WHERE id=1''" "[]" "[]"]
  by (simp add: run_eval text_eval mismatch_write_def ascii_def)

section \<open>The case of the query type\<close>

text \<open>
  Claim C7 says that a call behaves the same whether \<^verbatim>\<open>query_type\<close> is given in upper,
  lower or mixed case, the table extraction and validation for SELECT included. The
  dispatch compares \<^verbatim>\<open>sql_type.upper()\<close>, but line 145 compares \<^verbatim>\<open>sql_type\<close> itself
  with \<^verbatim>\<open>'SELECT'\<close>: with \<^verbatim>\<open>query_type="SELECT"\<close> and a table that is not in the
  text the call raises the table-mismatch error, and with \<^verbatim>\<open>query_type="select"\<close>
  the same call skips the check and runs the query.
\<close>

theorem lowercase_select_skips_table_check:
  "remote_execute_sql (env_ok [])
     (default_args\<lparr>sql_query := Str ''SELECT * FROM ORDERS'', query_type := ''SELECT'',
        table := ''CUSTOMERS''\<rparr>) =
     ([GetConfig, GetCredentials, TunnelOpened, TunnelExit],
      Inl (SyntaxError ''Argument table does not match with SQL statement'')) \<and>
   remote_execute_sql (env_ok [])
     (default_args\<lparr>sql_query := Str ''SELECT * FROM ORDERS'', query_type := ''select'',
        table := ''CUSTOMERS''\<rparr>) =
     ([GetConfig, GetCredentials, TunnelOpened, Connector, ReadSql (Str ''SELECT * FROM ORDERS''),
       ConnClose, TunnelExit], Inr (RetFrame one_row))"
  by (simp add: run_eval text_eval)

section \<open>The table of a SELECT\<close>

lemma find_sep_None: "sep \<noteq> [] \<Longrightarrow> find_sep sep s = None \<longleftrightarrow> \<not> sublist sep s"
  by (induction s) (auto simp: sublist_Cons_right split: option.splits)

lemma prefix_of_long_front:
  assumes "prefix xs (ys @ zs)" and "length xs \<le> length ys"
  shows "prefix xs ys"
  using assms by (auto simp: prefix_append)

lemma find_sep_first:
  assumes "sep \<noteq> []" and "\<not> sublist sep (a @ butlast sep)"
  shows "find_sep sep (a @ sep @ b) = Some (a, b)"
  using assms(2)
proof (induction a)
  case Nil
  from assms(1) show ?case by (cases sep) simp_all
next
  case (Cons x a)
  from Cons.prems have np: "\<not> prefix sep (x # a @ butlast sep)"
    and ns: "\<not> sublist sep (a @ butlast sep)"
    by (simp_all add: sublist_Cons_right)
  have "\<not> prefix sep (x # a @ sep @ b)"
  proof
    assume "prefix sep (x # a @ sep @ b)"
    moreover have "x # a @ sep @ b = (x # a @ butlast sep) @ ([last sep] @ b)"
      using assms(1) by simp
    moreover have "length sep \<le> length (x # a @ butlast sep)" by simp
    ultimately have "prefix sep (x # a @ butlast sep)"
      using prefix_of_long_front [of sep "x # a @ butlast sep" "[last sep] @ b"] by simp
    with np show False ..
  qed
  with Cons.IH [OF ns] show ?case by simp
qed

lemma find_sep_Some:
  assumes "sep \<noteq> []" and "find_sep sep s = Some (a, b)"
  shows "s = a @ sep @ b \<and> \<not> sublist sep (a @ butlast sep)"
  using assms(2)
proof (induction s arbitrary: a)
  case Nil
  with assms(1) show ?case by simp
next
  case (Cons c cs)
  show ?case
  proof (cases "prefix sep (c # cs)")
    case True
    with Cons.prems have "a = []" and "b = drop (length sep) (c # cs)" by simp_all
    moreover from True have "c # cs = sep @ drop (length sep) (c # cs)"
      by (metis append_eq_conv_conj prefix_def)
    moreover have "\<not> sublist sep (butlast sep)"
      using assms(1) sublist_length_le [of sep "butlast sep"] by (cases sep) auto
    ultimately show ?thesis by simp
  next
    case False
    with Cons.prems obtain a' where f: "find_sep sep cs = Some (a', b)" and a: "a = c # a'"
      by (auto split: option.splits)
    from Cons.IH [OF f] have cs: "cs = a' @ sep @ b"
      and n: "\<not> sublist sep (a' @ butlast sep)" by simp_all
    have "\<not> prefix sep (c # a' @ butlast sep)"
    proof
      assume "prefix sep (c # a' @ butlast sep)"
      then have "prefix sep ((c # a' @ butlast sep) @ ([last sep] @ b))"
        using prefix_prefix by blast
      moreover have "(c # a' @ butlast sep) @ ([last sep] @ b) = c # cs"
        using cs assms(1) by simp
      ultimately show False using False by simp
    qed
    with n a cs show ?thesis by (simp add: sublist_Cons_right)
  qed
qed

text \<open>Splitting at a single character: the first piece is the text before it.\<close>

lemma find_sep_char:
  "find_sep [c] s =
     (if c \<in> set s then Some (takeWhile (\<lambda>x. x \<noteq> c) s, tl (dropWhile (\<lambda>x. x \<noteq> c) s)) else None)"
  by (induction s) auto

lemma split_char_first: "\<exists>ps. split [c] s = takeWhile (\<lambda>x. x \<noteq> c) s # ps"
proof (cases "c \<in> set s")
  case True
  then show ?thesis by (simp add: split.simps [of "[c]" s] find_sep_char)
next
  case False
  then have n: "find_sep [c] s = None" by (simp add: find_sep_char)
  from False have t: "takeWhile (\<lambda>x. x \<noteq> c) s = s" by (induction s) auto
  show ?thesis unfolding t by (simp add: split.simps [of "[c]" s] n)
qed

text \<open>The second piece of a split: the text between the first two separators.\<close>

lemma split_second_piece:
  assumes "sep \<noteq> []" and "\<not> sublist sep (pre @ butlast sep)"
  shows "\<exists>ps. split sep (pre @ sep @ rest) =
           pre # (case find_sep sep rest of None \<Rightarrow> rest | Some (a, b) \<Rightarrow> a) # ps"
proof -
  have "split sep (pre @ sep @ rest) = pre # split sep rest"
    using assms by (simp add: split.simps [of sep "pre @ sep @ rest"] find_sep_first)
  moreover have "\<exists>ps. split sep rest =
      (case find_sep sep rest of None \<Rightarrow> rest | Some (a, b) \<Rightarrow> a) # ps"
    using assms(1) by (simp add: split.simps [of sep rest] split: option.splits)
  ultimately show ?thesis by auto
qed

lemma split_no_sep:
  assumes "sep \<noteq> []" and "\<not> sublist sep s"
  shows "split sep s = [s]"
proof -
  from assms have "find_sep sep s = None" by (simp add: find_sep_None)
  with assms(1) show ?thesis by (simp add: split.simps [of sep s])
qed

text \<open>
  The first space-delimited token of the text between the first two \<^verbatim>\<open>FROM \<close>, in
  terms of the text after the first \<^verbatim>\<open>FROM \<close> alone.
\<close>

lemma token_of_piece:
  fixes rest :: string
  defines "w \<equiv> takeWhile (\<lambda>c. c \<noteq> CHR '' '') rest"
  shows "takeWhile (\<lambda>c. c \<noteq> CHR '' '')
           (case find_sep ''FROM '' rest of None \<Rightarrow> rest | Some (a, b) \<Rightarrow> a) =
         (if w \<noteq> rest \<and> suffix ''FROM'' w then take (length w - 4) w else w)"
proof (cases "find_sep ''FROM '' rest")
  case None
  then have ns: "\<not> sublist ''FROM '' rest" by (simp add: find_sep_None)
  have "\<not> (w \<noteq> rest \<and> suffix ''FROM'' w)"
  proof
    assume a: "w \<noteq> rest \<and> suffix ''FROM'' w"
    then obtain w' where w': "w = w' @ ''FROM''" by (auto simp: suffix_def)
    have "rest = w @ dropWhile (\<lambda>c. c \<noteq> CHR '' '') rest" by (simp add: w_def)
    moreover from a have "dropWhile (\<lambda>c. c \<noteq> CHR '' '') rest \<noteq> []"
      by (auto simp: w_def takeWhile_eq_all_conv)
    then obtain r where "dropWhile (\<lambda>c. c \<noteq> CHR '' '') rest = CHR '' '' # r"
      using hd_dropWhile [of "\<lambda>c. c \<noteq> CHR '' ''" rest]
      by (cases "dropWhile (\<lambda>c. c \<noteq> CHR '' '') rest") auto
    ultimately have "rest = w' @ ''FROM '' @ r" using w' by simp
    then have "sublist ''FROM '' rest" by (metis sublist_appendI)
    with ns show False ..
  qed
  with None show ?thesis by (auto simp: w_def)
next
  case (Some ab)
  obtain a b where ab: "ab = (a, b)" by (cases ab)
  with Some find_sep_Some [of "''FROM ''" rest a b]
  have rest: "rest = a @ ''FROM '' @ b" and first: "\<not> sublist ''FROM '' (a @ ''FROM'')"
    by simp_all
  show ?thesis
  proof (cases "CHR '' '' \<in> set a")
    case True
    then have wa: "w = takeWhile (\<lambda>c. c \<noteq> CHR '' '') a"
      by (simp add: w_def rest takeWhile_append1)
    have "\<not> suffix ''FROM'' w"
    proof
      assume "suffix ''FROM'' w"
      then obtain w' where w': "w = w' @ ''FROM''" by (auto simp: suffix_def)
      have "a = w @ dropWhile (\<lambda>c. c \<noteq> CHR '' '') a" by (simp add: wa)
      moreover from True have "dropWhile (\<lambda>c. c \<noteq> CHR '' '') a \<noteq> []"
        by (simp add: dropWhile_eq_Nil_conv)
      then obtain r where "dropWhile (\<lambda>c. c \<noteq> CHR '' '') a = CHR '' '' # r"
        using hd_dropWhile [of "\<lambda>c. c \<noteq> CHR '' ''" a]
        by (cases "dropWhile (\<lambda>c. c \<noteq> CHR '' '') a") auto
      ultimately have "a @ ''FROM'' = w' @ ''FROM '' @ (r @ ''FROM'')" using w' by simp
      then have "sublist ''FROM '' (a @ ''FROM'')" by (metis sublist_appendI)
      with first show False ..
    qed
    with Some ab wa show ?thesis by auto
  next
    case False
    then have ta: "takeWhile (\<lambda>c. c \<noteq> CHR '' '') a = a"
      by (auto simp: takeWhile_eq_all_conv)
    from False have "x \<noteq> CHR '' ''" if "x \<in> set a" for x using that by auto
    then have "takeWhile (\<lambda>c. c \<noteq> CHR '' '') (a @ ''FROM '' @ b) =
        a @ takeWhile (\<lambda>c. c \<noteq> CHR '' '') (''FROM '' @ b)"
      by (rule takeWhile_append2)
    then have "w = a @ ''FROM''"
      by (simp add: w_def rest)
    moreover from this have "w \<noteq> rest" by (simp add: rest)
    ultimately show ?thesis using Some ab ta by (simp add: suffix_def)
  qed
qed

text \<open>
  Claim C9 says that the table is the first whitespace-delimited token after the first
  \<^verbatim>\<open>FROM \<close>. The code splits the whole text at every \<^verbatim>\<open>FROM \<close> and takes the
  second piece up to its first space, so a table whose name ends in \<^verbatim>\<open>FROM\<close> loses
  that ending: for \<^verbatim>\<open>select * from sent_from where id=1\<close> the token is
  \<^verbatim>\<open>SENT_FROM\<close> and the code's table is \<^verbatim>\<open>SENT_\<close>.
\<close>

theorem table_token_counterexample:
  "spec_first_token_after_from ''select * from sent_from where id=1'' = Some ''SENT_FROM'' \<and>
   select_table ''SELECT'' [] (Str ''select * from sent_from where id=1'') = Inr ''SENT_''"
  by (simp add: spec_first_token_after_from_def is_space_def select_table_def extract_table_def
      split.simps text_eval)

text \<open>
  Claim C9, amended. For a call whose kind is exactly \<^verbatim>\<open>SELECT\<close> with no table given
  and whose query text is ASCII,
  the table is taken from the upper-cased text with newlines replaced by spaces: it is
  the text after the first \<^verbatim>\<open>FROM \<close> up to the next space or the end of the text,
  without its ending \<^verbatim>\<open>FROM\<close> when it ends so and a space follows it. When the text
  has no \<^verbatim>\<open>FROM \<close> the extraction raises \<^verbatim>\<open>IndexError\<close>.
\<close>

theorem select_table_extraction:
  assumes "ascii sql"
  shows "(replace_newlines (upper sql) = pre @ ''FROM '' @ rest \<and>
    \<not> sublist ''FROM '' (pre @ ''FROM'') \<longrightarrow>
      select_table ''SELECT'' [] (Str sql) =
        Inr (if takeWhile (\<lambda>c. c \<noteq> CHR '' '') rest \<noteq> rest \<and>
                suffix ''FROM'' (takeWhile (\<lambda>c. c \<noteq> CHR '' '') rest)
             then take (length (takeWhile (\<lambda>c. c \<noteq> CHR '' '') rest) - 4)
                    (takeWhile (\<lambda>c. c \<noteq> CHR '' '') rest)
             else takeWhile (\<lambda>c. c \<noteq> CHR '' '') rest)) \<and>
   (\<not> sublist ''FROM '' (replace_newlines (upper sql)) \<longrightarrow>
      select_table ''SELECT'' [] (Str sql) = Inl (IndexError ''list index out of range''))"
proof (intro conjI impI)
  assume a: "replace_newlines (upper sql) = pre @ ''FROM '' @ rest \<and>
    \<not> sublist ''FROM '' (pre @ ''FROM'')"
  let ?piece = "case find_sep ''FROM '' rest of None \<Rightarrow> rest | Some (a, b) \<Rightarrow> a"
  from a have "\<not> sublist ''FROM '' (pre @ butlast ''FROM '')" by simp
  from split_second_piece [OF _ this, of rest]
  obtain ps where "split ''FROM '' (pre @ ''FROM '' @ rest) = pre # ?piece # ps"
    by auto
  moreover obtain ps' where
    "split '' '' ?piece = takeWhile (\<lambda>c. c \<noteq> CHR '' '') ?piece # ps'"
    using split_char_first [of "CHR '' ''" ?piece] by auto
  ultimately have "extract_table (upper sql) = Inr (takeWhile (\<lambda>c. c \<noteq> CHR '' '') ?piece)"
    using a by (simp add: extract_table_def)
  then show "select_table ''SELECT'' [] (Str sql) =
        Inr (if takeWhile (\<lambda>c. c \<noteq> CHR '' '') rest \<noteq> rest \<and>
                suffix ''FROM'' (takeWhile (\<lambda>c. c \<noteq> CHR '' '') rest)
             then take (length (takeWhile (\<lambda>c. c \<noteq> CHR '' '') rest) - 4)
                    (takeWhile (\<lambda>c. c \<noteq> CHR '' '') rest)
             else takeWhile (\<lambda>c. c \<noteq> CHR '' '') rest)"
    unfolding token_of_piece by (simp add: select_table_def)
next
  assume "\<not> sublist ''FROM '' (replace_newlines (upper sql))"
  then have "split ''FROM '' (replace_newlines (upper sql)) = [replace_newlines (upper sql)]"
    by (intro split_no_sep) simp_all
  then show "select_table ''SELECT'' [] (Str sql) = Inl (IndexError ''list index out of range'')"
    by (simp add: select_table_def extract_table_def)
qed

theorem select_table_extraction_witness:
  "ascii ''select * from sent_from where id=1'' \<and> ascii ''select * from orders limit 10'' \<and>
   ascii ''select 1'' \<and>
   (replace_newlines (upper ''select * from sent_from where id=1'') =
      ''SELECT * '' @ ''FROM '' @ ''SENT_FROM WHERE ID=1'' \<and>
    \<not> sublist ''FROM '' (''SELECT * '' @ ''FROM'') \<and>
    select_table ''SELECT'' [] (Str ''select * from sent_from where id=1'') = Inr ''SENT_'') \<and>
   (replace_newlines (upper ''select * from orders limit 10'') =
      ''SELECT * '' @ ''FROM '' @ ''ORDERS LIMIT 10'' \<and>
    select_table ''SELECT'' [] (Str ''select * from orders limit 10'') = Inr ''ORDERS'') \<and>
   (\<not> sublist ''FROM '' (replace_newlines (upper ''select 1'')) \<and>
    select_table ''SELECT'' [] (Str ''select 1'') = Inl (IndexError ''list index out of range''))"
proof -
  have u1: "replace_newlines (upper ''select * from sent_from where id=1'') =
      ''SELECT * '' @ ''FROM '' @ ''SENT_FROM WHERE ID=1''"
    and u2: "replace_newlines (upper ''select * from orders limit 10'') =
      ''SELECT * '' @ ''FROM '' @ ''ORDERS LIMIT 10''"
    and u3: "replace_newlines (upper ''select 1'') = ''SELECT 1''"
    by (simp_all add: text_eval)
  have n: "\<not> sublist ''FROM '' (''SELECT * '' @ ''FROM'')" "\<not> sublist ''FROM '' ''SELECT 1''"
    by (simp_all add: sublist_code(3))
  have s: "suffix ''FROM'' ''SENT_FROM''" "\<not> suffix ''FROM'' ''ORDERS''"
    by (simp_all add: suffix_to_prefix)
  show ?thesis
    using select_table_extraction
        [of "''select * from sent_from where id=1''" "''SELECT * ''" "''SENT_FROM WHERE ID=1''"]
      select_table_extraction
        [of "''select * from orders limit 10''" "''SELECT * ''" "''ORDERS LIMIT 10''"]
      select_table_extraction [of "''select 1''" "[]" "[]"]
    unfolding u1 u2 u3 using n s by (simp add: ascii_def)
qed

end
